theory Spec2Isabelle
  imports Main "HOL-Library.Word" "HOL-Library.AList"
begin

chapter \<open>The metadata store and the sector download protocol of us\<close>

section \<open>Values shared by both parts\<close>

text \<open>
  Go byte slices, byte arrays and strings are byte lists, that is HOL strings.
  A Go function that returns \<open>(T, error)\<close> and may panic is a function into
  \<open>failure + T\<close>: \<open>Inl (Panic _)\<close> is a run-time panic, \<open>Inl (Error e)\<close> is a
  returned non-nil error.

  Error values are compared by identity in the source (\<open>err == modules.ErrStopResponse\<close>),
  so the sentinels are constructors of their own. \<open>errors_New\<close> is \<open>errors.New\<close>,
  \<open>errors_Wrap\<close> is \<open>errors.Wrap\<close>, and \<open>External\<close> is an error made by a package
  outside the repository (bolt, net, encoding).
\<close>

datatype error =
    ErrKeyNotFound
  | ErrStopResponse
  | errors_New string
  | errors_Wrap error string
  | External string

datatype failure = Panic string | Error error

type_synonym 'a result = "failure + 'a"

definition andThen :: "'a result \<Rightarrow> ('a \<Rightarrow> 'b result) \<Rightarrow> 'b result" where
  "andThen r f = (case r of Inl e \<Rightarrow> Inl e | Inr x \<Rightarrow> f x)"

text \<open>
  \<open>xs[i]\<close> for an index of type \<open>uint64\<close>: Go panics when the index is not below
  \<open>len(xs)\<close>. The index is computed in \<open>uint64\<close> first, so \<open>id - 1\<close> wraps to
  \<open>2^64 - 1\<close> when \<open>id\<close> is 0.
\<close>

definition index :: "'a list \<Rightarrow> 64 word \<Rightarrow> 'a result" where
  "index xs i =
     (if unat i < length xs then Inr (xs ! unat i)
      else Inl (Panic ''index out of range''))"

text \<open>\<open>xs[i]\<close> for an index of type \<open>int\<close>.\<close>

definition indexInt :: "'a list \<Rightarrow> int \<Rightarrow> 'a result" where
  "indexInt xs i =
     (if 0 \<le> i \<and> i < int (length xs) then Inr (xs ! nat i)
      else Inl (Panic ''index out of range''))"

text \<open>\<open>make([]uint64, n)\<close>: a negative length panics.\<close>

definition makeSlice :: "int \<Rightarrow> (64 word list) result" where
  "makeSlice n =
     (if n < 0 then Inl (Panic ''makeslice: len out of range'')
      else Inr (replicate (nat n) 0))"

section \<open>The records of the metadata store\<close>

record DBBlob =
  Key :: string
  Chunks :: "64 word list"
  Seed :: string

record DBChunk =
  ID :: "64 word"
  Shards :: "64 word list"
  MinShards :: "8 word"
  Len :: "64 word"

record DBShard =
  HostKey :: string
  SectorRoot :: string
  Offset :: "32 word"
  Nonce :: string

section \<open>EphemeralMetaDB: the store in memory\<close>

text \<open>
  Go maps are association lists with distinct keys, so that their entries can be
  enumerated. The order of the entries stands for the order in which a \<open>range\<close>
  loop happens to visit them, which Go leaves open; nothing below depends on it
  except the order inside the lists that \<open>UnreferencedSectors\<close> returns.
  \<open>refs\<close> maps a shard id to a Go \<open>int\<close>; its 64-bit wrap-around needs
  \<open>2^63\<close> updates of one entry and is left out.
\<close>

record EphemeralMetaDB =
  shards :: "DBShard list"
  chunks :: "DBChunk list"
  blobs :: "(string \<times> DBBlob) list"
  refs :: "(64 word \<times> int) list"
  meta :: "(string \<times> string) list"

definition NewEphemeralMetaDB :: EphemeralMetaDB where
  "NewEphemeralMetaDB = \<lparr>shards = [], chunks = [], blobs = [], refs = [], meta = []\<rparr>"

text \<open>Reading a missing key of a \<open>map[uint64]int\<close> gives 0.\<close>

definition refsGet :: "(64 word \<times> int) list \<Rightarrow> 64 word \<Rightarrow> int" where
  "refsGet r k = (case map_of r k of None \<Rightarrow> 0 | Some n \<Rightarrow> n)"

text \<open>\<open>r[k]++\<close> and \<open>r[k]--\<close>: both store an entry for \<open>k\<close>.\<close>

definition refsInc :: "64 word \<Rightarrow> (64 word \<times> int) list \<Rightarrow> (64 word \<times> int) list" where
  "refsInc k r = AList.update k (refsGet r k + 1) r"

definition refsDec :: "64 word \<Rightarrow> (64 word \<times> int) list \<Rightarrow> (64 word \<times> int) list" where
  "refsDec k r = AList.update k (refsGet r k - 1) r"

definition AddShard :: "DBShard \<Rightarrow> EphemeralMetaDB \<Rightarrow> (64 word \<times> EphemeralMetaDB) result" where
  "AddShard s db =
     (let db' = db\<lparr>shards := shards db @ [s]\<rparr>
      in Inr (of_nat (length (shards db')), db'))"

definition Shard :: "64 word \<Rightarrow> EphemeralMetaDB \<Rightarrow> DBShard result" where
  "Shard id' db = index (shards db) (id' - 1)"

definition AddChunk :: "int \<Rightarrow> int \<Rightarrow> 64 word \<Rightarrow> EphemeralMetaDB \<Rightarrow> (DBChunk \<times> EphemeralMetaDB) result" where
  "AddChunk m n length' db =
     andThen (makeSlice n) (\<lambda>slots.
       let c = \<lparr>ID = of_nat (length (chunks db)) + 1,
                Shards = slots,
                MinShards = word_of_int m,
                Len = length'\<rparr>
       in Inr (c, db\<lparr>chunks := chunks db @ [c]\<rparr>))"

definition SetChunkShard :: "64 word \<Rightarrow> int \<Rightarrow> 64 word \<Rightarrow> EphemeralMetaDB \<Rightarrow> EphemeralMetaDB result" where
  "SetChunkShard id' i s db =
     andThen (index (chunks db) (id' - 1)) (\<lambda>c.
     andThen (indexInt (Shards c) i) (\<lambda>old.
       let r1 = refsDec old (refs db);
           c' = c\<lparr>Shards := (Shards c)[nat i := s]\<rparr>;
           r2 = refsInc s r1
       in Inr (db\<lparr>chunks := (chunks db)[unat (id' - 1) := c'], refs := r2\<rparr>)))"

text \<open>The loop of \<open>AddChunkAndShards\<close>: one \<open>AddShard\<close> per record, collecting the ids.\<close>

fun addShards :: "DBShard list \<Rightarrow> EphemeralMetaDB \<Rightarrow> (64 word list \<times> EphemeralMetaDB) result" where
  "addShards [] db = Inr ([], db)"
| "addShards (s # ss) db =
     andThen (AddShard s db) (\<lambda>(id', db1).
     andThen (addShards ss db1) (\<lambda>(ids, db2). Inr (id' # ids, db2)))"

definition AddChunkAndShards :: "int \<Rightarrow> 64 word \<Rightarrow> DBShard list \<Rightarrow> EphemeralMetaDB \<Rightarrow> (DBChunk \<times> EphemeralMetaDB) result" where
  "AddChunkAndShards m length' ss db =
     andThen (addShards ss db) (\<lambda>(ids, db1).
       let c = \<lparr>ID = of_nat (length (chunks db1)) + 1,
                Shards = ids,
                MinShards = word_of_int m,
                Len = length'\<rparr>
       in Inr (c, db1\<lparr>chunks := chunks db1 @ [c]\<rparr>))"

definition Chunk :: "64 word \<Rightarrow> EphemeralMetaDB \<Rightarrow> DBChunk result" where
  "Chunk id' db =
     (if id' = 0 then Inl (Panic ''GetChunk: unset id'')
      else index (chunks db) (id' - 1))"

definition AddBlob :: "DBBlob \<Rightarrow> EphemeralMetaDB \<Rightarrow> EphemeralMetaDB result" where
  "AddBlob b db = Inr (db\<lparr>blobs := AList.update (Key b) b (blobs db)\<rparr>)"

definition Blob :: "string \<Rightarrow> EphemeralMetaDB \<Rightarrow> DBBlob result" where
  "Blob key db =
     (case map_of (blobs db) key of
        None \<Rightarrow> Inl (Error ErrKeyNotFound)
      | Some b \<Rightarrow> Inr b)"

text \<open>
  The two nested loops of \<open>DeleteBlob\<close>. A chunk id that is 0 or beyond the chunk
  list panics in the middle of the outer loop.
\<close>

fun derefChunks :: "DBChunk list \<Rightarrow> 64 word list \<Rightarrow> (64 word \<times> int) list \<Rightarrow> ((64 word \<times> int) list) result" where
  "derefChunks cs [] r = Inr r"
| "derefChunks cs (cid # cids) r =
     andThen (index cs (cid - 1)) (\<lambda>c. derefChunks cs cids (fold refsDec (Shards c) r))"

definition DeleteBlob :: "string \<Rightarrow> EphemeralMetaDB \<Rightarrow> EphemeralMetaDB result" where
  "DeleteBlob key db =
     (case map_of (blobs db) key of
        None \<Rightarrow> Inr db
      | Some b \<Rightarrow>
          andThen (derefChunks (chunks db) (Chunks b) (refs db)) (\<lambda>r.
            Inr (db\<lparr>refs := r, blobs := AList.delete key (blobs db)\<rparr>)))"

text \<open>\<open>m[k] = append(m[k], v)\<close> on a map of slices.\<close>

definition appendAt :: "string \<Rightarrow> string \<Rightarrow> (string \<times> string list) list \<Rightarrow> (string \<times> string list) list" where
  "appendAt k v m =
     AList.update k ((case map_of m k of None \<Rightarrow> [] | Some vs \<Rightarrow> vs) @ [v]) m"

text \<open>The loop of \<open>UnreferencedSectors\<close> over the entries of \<open>refs\<close>.\<close>

fun unreferenced :: "DBShard list \<Rightarrow> (64 word \<times> int) list \<Rightarrow> (string \<times> string list) list \<Rightarrow> ((string \<times> string list) list) result" where
  "unreferenced ss [] m = Inr m"
| "unreferenced ss ((sid, n) # es) m =
     (if n = 0 then
        andThen (index ss (sid - 1)) (\<lambda>s.
          unreferenced ss es (appendAt (HostKey s) (SectorRoot s) m))
      else unreferenced ss es m)"

definition UnreferencedSectors :: "EphemeralMetaDB \<Rightarrow> ((string \<times> string list) list) result" where
  "UnreferencedSectors db = unreferenced (shards db) (refs db) []"

section \<open>BoltMetaDB: the store on disk\<close>

text \<open>
  The bolt database is a package outside the repository. A bucket is an
  association list from keys to values, together with its sequence counter.
  \<open>encoding.Marshal\<close> followed by \<open>encoding.Unmarshal\<close> gives the value back, so a
  bucket holds the decoded record; the 8-byte little-endian key of a chunk or shard
  is the id itself. Of bolt's behaviour the model keeps what its documentation
  promises: \<open>Get\<close> of a missing key is nil, \<open>Put\<close> refuses an empty key and a key
  longer than \<open>MaxKeySize = 32768\<close>, \<open>Delete\<close> of a missing key is not an error,
  \<open>NextSequence\<close> increments the counter and returns it, and \<open>Update\<close> commits only
  when its function returns nil. Failures of the disk are not modelled: the branches
  of the source that pass them on are kept, and no bolt call of the model takes them
  for a key of 8 bytes.
\<close>

record BoltMetaDB =
  bucketBlobs :: "(string \<times> (64 word list \<times> string)) list"
  bucketChunks :: "(64 word \<times> DBChunk) list"
  bucketShards :: "(64 word \<times> DBShard) list"
  bucketMeta :: "(string \<times> string) list"
  sequenceChunks :: "64 word"
  sequenceShards :: "64 word"

text \<open>What \<open>NewBoltMetaDB\<close> leaves in a new file: four empty buckets.\<close>

definition NewBoltMetaDB :: BoltMetaDB where
  "NewBoltMetaDB =
     \<lparr>bucketBlobs = [], bucketChunks = [], bucketShards = [], bucketMeta = [],
      sequenceChunks = 0, sequenceShards = 0\<rparr>"

definition bolt_Put :: "string \<Rightarrow> 'v \<Rightarrow> (string \<times> 'v) list \<Rightarrow> ((string \<times> 'v) list) result" where
  "bolt_Put key v b =
     (if key = [] then Inl (Error (External ''key required''))
      else if 32768 < length key then Inl (Error (External ''key too large''))
      else Inr (AList.update key v b))"

text \<open>\<open>Put\<close> under the 8 bytes of an id: the key is never refused.\<close>

definition bolt_PutUint64 :: "64 word \<Rightarrow> 'v \<Rightarrow> (64 word \<times> 'v) list \<Rightarrow> ((64 word \<times> 'v) list) result" where
  "bolt_PutUint64 key v b = Inr (AList.update key v b)"

definition bolt_NextSequence :: "64 word \<Rightarrow> (64 word) result" where
  "bolt_NextSequence n = Inr (n + 1)"

text \<open>\<open>encoding.Unmarshal(bucket.Get(key), &v)\<close>: decoding the nil of a missing key fails.\<close>

definition bolt_GetUnmarshal :: "(64 word \<times> 'v) list \<Rightarrow> 64 word \<Rightarrow> 'v result" where
  "bolt_GetUnmarshal b key =
     (case map_of b key of
        None \<Rightarrow> Inl (Error (External ''could not decode: EOF''))
      | Some v \<Rightarrow> Inr v)"

definition Bolt_addShard :: "DBShard \<Rightarrow> BoltMetaDB \<Rightarrow> (64 word \<times> BoltMetaDB) result" where
  "Bolt_addShard s tx =
     andThen (bolt_NextSequence (sequenceShards tx)) (\<lambda>id'.
     andThen (bolt_PutUint64 id' s (bucketShards tx)) (\<lambda>b.
       Inr (id', tx\<lparr>sequenceShards := id', bucketShards := b\<rparr>)))"

definition Bolt_AddShard :: "DBShard \<Rightarrow> BoltMetaDB \<Rightarrow> (64 word \<times> BoltMetaDB) result" where
  "Bolt_AddShard s db = Bolt_addShard s db"

definition Bolt_Shard :: "64 word \<Rightarrow> BoltMetaDB \<Rightarrow> DBShard result" where
  "Bolt_Shard id' db = bolt_GetUnmarshal (bucketShards db) id'"

definition Bolt_addChunk :: "int \<Rightarrow> 64 word \<Rightarrow> 64 word list \<Rightarrow> BoltMetaDB \<Rightarrow> (DBChunk \<times> BoltMetaDB) result" where
  "Bolt_addChunk m length' slots tx =
     andThen (bolt_NextSequence (sequenceChunks tx)) (\<lambda>id'.
       let c = \<lparr>ID = id', Shards = slots, MinShards = word_of_int m, Len = length'\<rparr>
       in andThen (bolt_PutUint64 id' c (bucketChunks tx)) (\<lambda>b.
            Inr (c, tx\<lparr>sequenceChunks := id', bucketChunks := b\<rparr>)))"

definition Bolt_AddChunk :: "int \<Rightarrow> int \<Rightarrow> 64 word \<Rightarrow> BoltMetaDB \<Rightarrow> (DBChunk \<times> BoltMetaDB) result" where
  "Bolt_AddChunk m n length' db =
     andThen (makeSlice n) (\<lambda>slots. Bolt_addChunk m length' slots db)"

definition Bolt_SetChunkShard :: "64 word \<Rightarrow> int \<Rightarrow> 64 word \<Rightarrow> BoltMetaDB \<Rightarrow> BoltMetaDB result" where
  "Bolt_SetChunkShard id' i s db =
     andThen (bolt_GetUnmarshal (bucketChunks db) id') (\<lambda>c.
     andThen (indexInt (Shards c) i) (\<lambda>old.
     andThen (bolt_PutUint64 id' (c\<lparr>Shards := (Shards c)[nat i := s]\<rparr>) (bucketChunks db)) (\<lambda>b.
       Inr (db\<lparr>bucketChunks := b\<rparr>))))"

text \<open>
  The loop of \<open>AddChunkAndShards\<close> on disk. When \<open>addShard\<close> fails the source
  returns nil from the transaction function, which commits what was written so far
  and reports success with the zero chunk; \<open>None\<close> stands for that early return.
\<close>

fun Bolt_addShards :: "DBShard list \<Rightarrow> BoltMetaDB \<Rightarrow> (64 word list) option \<times> BoltMetaDB" where
  "Bolt_addShards [] tx = (Some [], tx)"
| "Bolt_addShards (s # ss) tx =
     (case Bolt_addShard s tx of
        Inl e \<Rightarrow> (None, tx)
      | Inr (id', tx1) \<Rightarrow>
          (case Bolt_addShards ss tx1 of
             (None, tx2) \<Rightarrow> (None, tx2)
           | (Some ids, tx2) \<Rightarrow> (Some (id' # ids), tx2)))"

definition Bolt_AddChunkAndShards :: "int \<Rightarrow> 64 word \<Rightarrow> DBShard list \<Rightarrow> BoltMetaDB \<Rightarrow> (DBChunk \<times> BoltMetaDB) result" where
  "Bolt_AddChunkAndShards m length' ss db =
     (case Bolt_addShards ss db of
        (None, tx) \<Rightarrow> Inr (\<lparr>ID = 0, Shards = [], MinShards = 0, Len = 0\<rparr>, tx)
      | (Some ids, tx) \<Rightarrow> Bolt_addChunk m length' ids tx)"

definition Bolt_Chunk :: "64 word \<Rightarrow> BoltMetaDB \<Rightarrow> DBChunk result" where
  "Bolt_Chunk id' db = bolt_GetUnmarshal (bucketChunks db) id'"

definition Bolt_AddBlob :: "DBBlob \<Rightarrow> BoltMetaDB \<Rightarrow> BoltMetaDB result" where
  "Bolt_AddBlob b db =
     andThen (bolt_Put (Key b) (Chunks b, Seed b) (bucketBlobs db)) (\<lambda>bk.
       Inr (db\<lparr>bucketBlobs := bk\<rparr>))"

text \<open>The bytes stored for a blob are never empty, so only a missing key has length 0.\<close>

definition Bolt_Blob :: "string \<Rightarrow> BoltMetaDB \<Rightarrow> DBBlob result" where
  "Bolt_Blob key db =
     (case map_of (bucketBlobs db) key of
        None \<Rightarrow> Inl (Error ErrKeyNotFound)
      | Some (cs, sd) \<Rightarrow> Inr \<lparr>Key = key, Chunks = cs, Seed = sd\<rparr>)"

text \<open>The source marks the reference counts here as still to be done.\<close>

definition Bolt_DeleteBlob :: "string \<Rightarrow> BoltMetaDB \<Rightarrow> BoltMetaDB result" where
  "Bolt_DeleteBlob key db = Inr (db\<lparr>bucketBlobs := AList.delete key (bucketBlobs db)\<rparr>)"

text \<open>\<open>return nil, nil\<close>: the nil map has no entries.\<close>

definition Bolt_UnreferencedSectors :: "BoltMetaDB \<Rightarrow> ((string \<times> string list) list) result" where
  "Bolt_UnreferencedSectors db = Inr []"

section \<open>The Downloader\<close>

text \<open>
  \<open>types.Currency\<close> is a non-negative big integer: a natural number. The host
  settings inside \<open>hostdb.ScannedHost\<close> are reduced to the fields the download reads.
\<close>

record ScannedHost =
  NetAddress :: string
  PublicKey :: string
  DownloadBandwidthPrice :: nat

text \<open>
  Modelled from the spec: the type \<open>types.FileContractRevision\<close> is declared
  in the Sia packages. Of a revision the spec speaks of what it pays the host, of the
  renter's side of the funds, and of "all other terms".
\<close>

record FileContractRevision =
  RenterPayout :: nat
  HostPayout :: nat
  OtherTerms :: string

text \<open>
  Modelled from the spec: the type \<open>ContractTransaction\<close>, returned by
  \<open>d.contract.Transaction()\<close>, is declared elsewhere in the repository. It gives
  the current revision of the contract and the renter's signing key.
\<close>

record ContractTransaction =
  CurrentRevision :: FileContractRevision
  RenterKey :: string

text \<open>
  Modelled from the spec: the method \<open>RenterFunds\<close> is declared elsewhere in the
  repository. It is "the contract's remaining renter-side funds": the renter's side
  of the current revision.
\<close>

definition RenterFunds :: "ContractTransaction \<Rightarrow> nat" where
  "RenterFunds txn = RenterPayout (CurrentRevision txn)"

text \<open>
  Modelled from the spec: the function \<open>newDownloadRevision\<close> is declared
  elsewhere in the repository. It makes "a proposed contract revision that pays the
  host exactly" the price "more than the prior revision and leaves all other terms
  unchanged"; the payment comes out of the renter's side.
\<close>

definition newDownloadRevision :: "FileContractRevision \<Rightarrow> nat \<Rightarrow> FileContractRevision" where
  "newDownloadRevision current price =
     current\<lparr>RenterPayout := RenterPayout current - price,
             HostPayout := HostPayout current + price\<rparr>"

record Transaction =
  FileContractRevisions :: "FileContractRevision list"
  TransactionSignatures :: "string list"

record DownloadAction =
  MerkleRoot :: string
  ActionOffset :: "64 word"
  ActionLength :: "64 word"

text \<open>
  A call talks to the host and to the contract editor. What it does to them is
  recorded as a list of events, in order; what they answer is given by an
  \<open>exchange\<close>, one per run of \<open>partialSector\<close>. A connection is a number.
\<close>

datatype deadline = NegotiateDownloadTime | Hour

datatype event =
    ExtendDeadline nat deadline
  | StartRevision nat
  | WriteObject nat "DownloadAction list"
  | NegotiateRevision nat FileContractRevision string
  | SyncWithHost FileContractRevision "string list"
  | ReadSector nat
  | ConnClose nat
  | InitiateRPC string string

record exchange =
  startRevisionReply :: "error + ScannedHost"
  contractTransaction :: ContractTransaction
  writeObjectReply :: "error option"
  negotiateRevisionReply :: "Transaction \<times> error option"
  syncWithHostReply :: "error option"
  wire :: string

record Downloader =
  host :: ScannedHost
  contract :: string
  conn :: nat

text \<open>\<open>encoding.DecUint64\<close>: eight bytes, little-endian.\<close>

definition DecUint64 :: "string \<Rightarrow> 64 word" where
  "DecUint64 bs = foldr (\<lambda>b acc. of_nat (of_char b) + 256 * acc) bs 0"

text \<open>
  \<open>sectorBuffer.UnmarshalSia\<close> reads from the bytes the host sends before the
  stream ends. \<open>io.ReadFull\<close> fails when fewer bytes arrive than asked for. The
  buffer has \<open>SectorSize\<close> bytes, so slicing its first 24 bytes panics for a smaller
  \<open>SectorSize\<close>. The result is the new content of the buffer \<open>d.sector\<close>.
\<close>

definition UnmarshalSia :: "nat \<Rightarrow> string \<Rightarrow> string result" where
  "UnmarshalSia SectorSize r =
     (if SectorSize < 24 then Inl (Panic ''slice bounds out of range'')
      else if length r < 24 then Inl (Error (External ''unexpected EOF''))
      else
        let totalSize = DecUint64 (take 8 r);
            numSectors = DecUint64 (take 8 (drop 8 r));
            payloadSize = DecUint64 (take 8 (drop 16 r))
        in if SectorSize + 16 < unat totalSize
             then Inl (Error (errors_New ''reported payload size is larger than SectorSize''))
           else if numSectors \<noteq> 1
             then Inl (Error (errors_New ''wrong number of sectors''))
           else if SectorSize < unat payloadSize
             then Inl (Error (errors_New ''reported sector data is larger than SectorSize''))
           else if length (drop 24 r) < unat payloadSize
             then Inl (Error (External ''unexpected EOF''))
           else Inr (take (unat payloadSize) (drop 24 r)))"

text \<open>
  Every run of \<open>partialSector\<close> starts with
  \<open>extendDeadline(d.conn, modules.NegotiateDownloadTime)\<close>, and the deferred
  \<open>extendDeadline(d.conn, time.Hour)\<close> runs on every way out of it, after the
  events \<open>evs\<close> of its body.
\<close>

definition deferred :: "nat \<Rightarrow> event list \<Rightarrow> Downloader \<Rightarrow> string result \<Rightarrow> event list \<times> Downloader \<times> string result" where
  "deferred c evs d r = (ExtendDeadline c NegotiateDownloadTime # evs @ [ExtendDeadline c Hour], d, r)"

text \<open>
  The second half of \<open>partialSector\<close>, from \<open>SyncWithHost\<close> on, reached when the
  negotiation returns nil or \<open>ErrStopResponse\<close>. \<open>evs\<close> are the events so far.
\<close>

definition syncAndRead :: "nat \<Rightarrow> exchange \<Rightarrow> 32 word \<Rightarrow> Downloader \<Rightarrow> event list \<Rightarrow> Transaction \<Rightarrow> event list \<times> Downloader \<times> string result" where
  "syncAndRead SectorSize x length' d evs signedTxn =
     (let c = conn d in
      case FileContractRevisions signedTxn of
        [] \<Rightarrow> deferred c evs d (Inl (Panic ''index out of range''))
      | rev0 # _ \<Rightarrow>
          let evs1 = evs @ [SyncWithHost rev0 (TransactionSignatures signedTxn)] in
          (case syncWithHostReply x of
             Some e \<Rightarrow>
               deferred c evs1 d (Inl (Error (errors_Wrap e ''could not update contract transaction'')))
           | None \<Rightarrow>
               (case UnmarshalSia SectorSize (wire x) of
                  Inl (Panic p) \<Rightarrow> deferred c (evs1 @ [ReadSector c]) d (Inl (Panic p))
                | Inl (Error e) \<Rightarrow> deferred c (evs1 @ [ReadSector c, ConnClose c]) d (Inl (Error e))
                | Inr sector \<Rightarrow>
                    if (of_nat (length sector) :: 32 word) \<noteq> length'
                    then deferred c (evs1 @ [ReadSector c, ConnClose c]) d
                           (Inl (Error (errors_New ''host sent incomplete sector data'')))
                    else deferred c (evs1 @ [ReadSector c]) d (Inr sector))))"

text \<open>
  \<open>SectorSize\<close> is a constant declared elsewhere in the repository and is a
  parameter here; it is compared with a \<open>uint32\<close>, so it is below \<open>2^32\<close>. The sum
  \<open>offset+length\<close> is a \<open>uint32\<close> sum.
\<close>

definition partialSector :: "nat \<Rightarrow> exchange \<Rightarrow> string \<Rightarrow> 32 word \<Rightarrow> 32 word \<Rightarrow> Downloader \<Rightarrow> event list \<times> Downloader \<times> string result" where
  "partialSector SectorSize x root offset length' d =
     (let c = conn d in
      if of_nat SectorSize < offset + length'
      then deferred c [] d (Inl (Error (errors_New ''invalid sector range'')))
      else
        (case startRevisionReply x of
           Inl e \<Rightarrow> deferred c [StartRevision c] d (Inl (Error e))
         | Inr h \<Rightarrow>
            (let d1 = d\<lparr>host := h\<rparr>;
                 txn = contractTransaction x;
                 sectorPrice = DownloadBandwidthPrice h * SectorSize
             in if RenterFunds txn < sectorPrice
                then deferred c [StartRevision c] d1
                       (Inl (Error (errors_New ''contract has insufficient funds to support download'')))
                else
                  (let action = \<lparr>MerkleRoot = root, ActionOffset = ucast offset, ActionLength = ucast length'\<rparr>;
                       evs1 = [StartRevision c, WriteObject c [action]]
                   in (case writeObjectReply x of
                         Some e \<Rightarrow>
                           deferred c evs1 d1 (Inl (Error (errors_Wrap e ''could not send revision action'')))
                       | None \<Rightarrow>
                          (let rev = newDownloadRevision (CurrentRevision txn) sectorPrice;
                               evs2 = evs1 @ [NegotiateRevision c rev (RenterKey txn)];
                               signedTxn = fst (negotiateRevisionReply x)
                           in (case snd (negotiateRevisionReply x) of
                                 None \<Rightarrow> syncAndRead SectorSize x length' d1 evs2 signedTxn
                               | Some err \<Rightarrow>
                                   (if err = ErrStopResponse
                                    then syncAndRead SectorSize x length' d1 evs2 signedTxn
                                    else deferred c (evs2 @ [ConnClose c]) d1 (Inl (Error err))))))))))"

text \<open>
  \<open>isHostDisconnect\<close> and \<open>initiateRPC\<close> are declared elsewhere in the repository.
  The first is a parameter, applied to the error of the first run (\<open>None\<close> is nil);
  of the second the model takes the pair it returns, a connection and an error.
  \<open>x1\<close> answers the first run of \<open>partialSector\<close> and \<open>x2\<close> the second, if there is one.
\<close>

definition errorOf :: "'a result \<Rightarrow> error option" where
  "errorOf r = (case r of Inl (Error e) \<Rightarrow> Some e | _ \<Rightarrow> None)"

definition PartialSector :: "nat \<Rightarrow> (error option \<Rightarrow> bool) \<Rightarrow> exchange \<Rightarrow> nat \<times> error option \<Rightarrow> exchange \<Rightarrow> string \<Rightarrow> 32 word \<Rightarrow> 32 word \<Rightarrow> Downloader \<Rightarrow> event list \<times> Downloader \<times> string result" where
  "PartialSector SectorSize isHostDisconnect x1 rpc x2 root offset length' d =
     (case partialSector SectorSize x1 root offset length' d of
        (evs1, d1, Inl (Panic p)) \<Rightarrow> (evs1, d1, Inl (Panic p))
      | (evs1, d1, r1) \<Rightarrow>
          if isHostDisconnect (errorOf r1)
          then
            let evs = evs1 @ [ConnClose (conn d1), InitiateRPC (NetAddress (host d1)) (contract d1)];
                d2 = d1\<lparr>conn := fst rpc\<rparr>
            in (case snd rpc of
                  Some e \<Rightarrow> (evs, d2, Inl (Error e))
                | None \<Rightarrow>
                    (case partialSector SectorSize x2 root offset length' d2 of
                       (evs2, d3, r2) \<Rightarrow> (evs @ evs2, d3, r2)))
          else (evs1, d1, r1))"

text \<open>The runs of \<open>partialSector\<close> and the handshakes that a list of events records.\<close>

fun isExchangeStart :: "event \<Rightarrow> bool" where
  "isExchangeStart (ExtendDeadline c NegotiateDownloadTime) = True"
| "isExchangeStart e = False"

fun isHandshake :: "event \<Rightarrow> bool" where
  "isHandshake (InitiateRPC a k) = True"
| "isHandshake e = False"

definition exchanges :: "event list \<Rightarrow> nat" where
  "exchanges evs = length (filter isExchangeStart evs)"

definition handshakes :: "event list \<Rightarrow> nat" where
  "handshakes evs = length (filter isHandshake evs)"

section \<open>Reference counts recomputed from the blobs\<close>

text \<open>
  Following the spec's words, not the source: "refcount(shardId) = number of
  (chunk, slot) pairs across all live blobs' chunks that currently point to shardId".
  \<open>chunkShards\<close> are the slots of a chunk id, none when the store has no such chunk.
\<close>

definition chunkShards :: "DBChunk list \<Rightarrow> 64 word \<Rightarrow> 64 word list" where
  "chunkShards cs cid = (case index cs (cid - 1) of Inl e \<Rightarrow> [] | Inr c \<Rightarrow> Shards c)"

definition liveReferences :: "EphemeralMetaDB \<Rightarrow> 64 word \<Rightarrow> int" where
  "liveReferences db s =
     int (length (filter (\<lambda>sid. sid = s)
       (concat (map (chunkShards (chunks db))
          (concat (map (\<lambda>kb. Chunks (snd kb)) (blobs db)))))))"

section \<open>Concrete values used by the closed theorems\<close>

definition shardA :: DBShard where
  "shardA = \<lparr>HostKey = ''host-a'', SectorRoot = ''root-a'', Offset = 0, Nonce = ''nonce-a''\<rparr>"

definition blobK :: DBBlob where
  "blobK = \<lparr>Key = ''k'', Chunks = [1], Seed = ''seed''\<rparr>"

definition blobK2 :: DBBlob where
  "blobK2 = \<lparr>Key = ''k'', Chunks = [], Seed = ''other seed''\<rparr>"

text \<open>
  A host that asks 1 per byte, a contract with 5000000 left for the renter, and a
  host that answers a request for one byte: the 24 bytes of the three length
  prefixes (17, 1 and 1, little-endian) and the byte \<open>z\<close>. \<open>SectorSize\<close> is
  \<open>4194304\<close> in the closed theorems.
\<close>

definition hostA :: ScannedHost where
  "hostA = \<lparr>NetAddress = ''host-a:9982'', PublicKey = ''host-a'', DownloadBandwidthPrice = 1\<rparr>"

definition revA :: FileContractRevision where
  "revA = \<lparr>RenterPayout = 5000000, HostPayout = 0, OtherTerms = ''terms''\<rparr>"

definition txnA :: ContractTransaction where
  "txnA = \<lparr>CurrentRevision = revA, RenterKey = ''renter-key''\<rparr>"

definition downloaderA :: Downloader where
  "downloaderA = \<lparr>host = hostA, contract = ''contract-a'', conn = 1\<rparr>"

definition oneByte :: string where
  "oneByte = [CHR 0x11, CHR 0x00, CHR 0x00, CHR 0x00, CHR 0x00, CHR 0x00, CHR 0x00, CHR 0x00,
              CHR 0x01, CHR 0x00, CHR 0x00, CHR 0x00, CHR 0x00, CHR 0x00, CHR 0x00, CHR 0x00,
              CHR 0x01, CHR 0x00, CHR 0x00, CHR 0x00, CHR 0x00, CHR 0x00, CHR 0x00, CHR 0x00,
              CHR ''z'']"

definition signedA :: Transaction where
  "signedA = \<lparr>FileContractRevisions = [newDownloadRevision revA 4194304],
          TransactionSignatures = [''renter-sig'', ''host-sig'']\<rparr>"

definition exchangeA :: exchange where
  "exchangeA = \<lparr>startRevisionReply = Inr hostA, contractTransaction = txnA,
      writeObjectReply = None,
      negotiateRevisionReply = (signedA, None),
      syncWithHostReply = None, wire = oneByte\<rparr>"

text \<open>
  A host that has closed the connection, a handshake that is refused, a host that
  answers the revision with the stop response, and a contract with 100 left.
\<close>

definition closedConn :: error where
  "closedConn = External ''use of closed network connection''"

definition refused :: error where
  "refused = External ''connection refused''"

definition isDisconnect :: "error option \<Rightarrow> bool" where
  "isDisconnect e = (e = Some closedConn)"

definition exchangeDown :: exchange where
  "exchangeDown = exchangeA\<lparr>startRevisionReply := Inl closedConn\<rparr>"

definition exchangeStop :: exchange where
  "exchangeStop = exchangeA\<lparr>negotiateRevisionReply := (signedA, Some ErrStopResponse)\<rparr>"

definition exchangePoor :: exchange where
  "exchangePoor = exchangeA\<lparr>contractTransaction := txnA\<lparr>CurrentRevision := revA\<lparr>RenterPayout := 100\<rparr>\<rparr>\<rparr>"

section \<open>Indexing by a shard or chunk id\<close>

text \<open>
  A Go slice has fewer than \<open>2^63\<close> elements (its length is an \<open>int\<close>). Under that
  bound \<open>xs[id-1]\<close> panics exactly for \<open>id = 0\<close> (the index wraps to \<open>2^64 - 1\<close>)
  and for ids beyond the length.
\<close>

lemma index_pred:
  assumes "length xs < 2 ^ 64"
  shows "index xs (i - 1) =
     (if i = 0 \<or> length xs < unat i then Inl (Panic ''index out of range'')
      else Inr (xs ! (unat i - 1)))"
proof (cases "i = 0")
  case True
  with assms show ?thesis
    by (simp add: index_def unsigned_minus_1_eq_mask mask_eq_exp_minus_1)
next
  case False
  then have "unat (i - 1) = unat i - 1" by (rule unat_minus_one)
  moreover from False have "0 < unat i" by (simp add: unat_gt_0)
  ultimately show ?thesis using False by (auto simp: index_def)
qed

section \<open>Shard lookup in memory\<close>

text \<open>
  Claim C10. On the store in memory, \<open>Shard(id)\<close> panics with an index out of range,
  and returns no error value, when \<open>id\<close> is 0 or greater than the number of shards
  added so far; for every other id it returns the shard stored at position \<open>id - 1\<close>.
  \<open>AddShard\<close> returns the new number of shards, so the ids that give a normal result
  are exactly the ids \<open>AddShard\<close> has returned, and the id it returns reads back the
  shard just added.
\<close>

theorem Shard_panics_outside_added_ids:
  assumes "length (shards db) < 2 ^ 63"
  shows "Shard id' db =
           (if id' = 0 \<or> length (shards db) < unat id'
            then Inl (Panic ''index out of range'')
            else Inr (shards db ! (unat id' - 1)))
         \<and> (case AddShard s db of
               Inl e \<Rightarrow> False
             | Inr (j, db') \<Rightarrow>
                 unat j = length (shards db) + 1 \<and> shards db' = shards db @ [s]
                 \<and> Shard j db' = Inr s)"
proof -
  from assms have l64: "length (shards db) < 2 ^ 64" by simp
  have 1: "Shard id' db =
           (if id' = 0 \<or> length (shards db) < unat id'
            then Inl (Panic ''index out of range'')
            else Inr (shards db ! (unat id' - 1)))"
    unfolding Shard_def by (rule index_pred [OF l64])
  let ?db' = "db\<lparr>shards := shards db @ [s]\<rparr>"
  let ?j = "of_nat (length (shards db) + 1) :: 64 word"
  have a: "AddShard s db = Inr (?j, ?db')" by (simp add: AddShard_def)
  from assms have u: "unat ?j = length (shards db) + 1"
    by (simp add: unat_of_nat del: of_nat_add of_nat_Suc)
  then have nz: "?j \<noteq> 0" by (metis Suc_eq_plus1 nat.distinct(1) unat_0)
  have l': "length (shards ?db') < 2 ^ 64" using assms by simp
  have b: "Shard ?j ?db' = Inr s"
    unfolding Shard_def index_pred [OF l'] using u nz by simp
  show ?thesis unfolding a using 1 u b by simp
qed

theorem Shard_panics_outside_added_ids_witness:
  "length (shards (NewEphemeralMetaDB\<lparr>shards := [shardA]\<rparr>)) < 2 ^ 63
   \<and> Shard 0 (NewEphemeralMetaDB\<lparr>shards := [shardA]\<rparr>) = Inl (Panic ''index out of range'')
   \<and> Shard 2 (NewEphemeralMetaDB\<lparr>shards := [shardA]\<rparr>) = Inl (Panic ''index out of range'')
   \<and> Shard 1 (NewEphemeralMetaDB\<lparr>shards := [shardA]\<rparr>) = Inr shardA"
proof -
  let ?db = "NewEphemeralMetaDB\<lparr>shards := [shardA]\<rparr>"
  have h: "length (shards ?db) < 2 ^ 63" by simp
  show ?thesis
    using h Shard_panics_outside_added_ids [OF h, of 0 shardA]
      Shard_panics_outside_added_ids [OF h, of 2 shardA]
      Shard_panics_outside_added_ids [OF h, of 1 shardA]
    by simp
qed

section \<open>The metadata store on concrete runs\<close>

lemmas eph_defs = AddChunkAndShards_def AddShard_def AddBlob_def DeleteBlob_def andThen_def
  NewEphemeralMetaDB_def blobK_def shardA_def refsGet_def refsDec_def refsInc_def index_def
  indexInt_def liveReferences_def chunkShards_def UnreferencedSectors_def AddChunk_def
  SetChunkShard_def makeSlice_def appendAt_def Blob_def blobK2_def Let_def

lemmas bolt_defs = Bolt_AddShard_def Bolt_addShard_def Bolt_UnreferencedSectors_def
  NewBoltMetaDB_def bolt_NextSequence_def bolt_PutUint64_def Bolt_Shard_def bolt_GetUnmarshal_def
  Bolt_AddChunk_def Bolt_addChunk_def Bolt_SetChunkShard_def Bolt_AddBlob_def Bolt_Blob_def
  Bolt_DeleteBlob_def Bolt_Chunk_def bolt_Put_def

subsection \<open>Reference counts\<close>

text \<open>
  Claim C2 says that after every sequence of operations the stored reference count of
  a shard equals the number of slots of live blobs' chunks that point at it, and is
  never negative. The store in memory breaks both. \<open>AddChunkAndShards\<close>
  stores one shard and a chunk whose slot points at it without counting the
  reference, and \<open>AddBlob\<close> makes the chunk live: shard 1 is referenced once and
  its stored count is 0. \<open>DeleteBlob\<close> then lowers the count to \<open>-1\<close>.
  The tuple holds the chunk id, its slots, and the stored and the recomputed count
  of shard 1 before and after the deletion.
\<close>

theorem refcount_negative_after_DeleteBlob:
  "andThen (AddChunkAndShards 1 10 [shardA] NewEphemeralMetaDB) (\<lambda>(c, db1).
   andThen (AddBlob blobK db1) (\<lambda>db2.
   andThen (DeleteBlob ''k'' db2) (\<lambda>db3.
     Inr (ID c, Shards c,
          refsGet (refs db2) 1, liveReferences db2 1,
          refsGet (refs db3) 1, liveReferences db3 1))))
   = Inr (1, [1], 0, 1, - 1, 0)"
  by (simp add: eph_defs)

text \<open>
  The other way to fill a slot, \<open>AddChunk\<close> and \<open>SetChunkShard\<close>, counts the
  reference whether or not a blob holds the chunk, and lowers the count of the unset
  id 0 that the slot held before.
\<close>

lemma SetChunkShard_counts_without_blob:
  "andThen (AddShard shardA NewEphemeralMetaDB) (\<lambda>(s, db1).
   andThen (AddChunk 1 1 10 db1) (\<lambda>(c, db2).
   andThen (SetChunkShard (ID c) 0 s db2) (\<lambda>db3.
     Inr (s, ID c, refs db3, liveReferences db3 1))))
   = Inr (1, 1, [(0, - 1), (1, 1)], 0)"
  by (simp add: eph_defs)

subsection \<open>Deleting a blob\<close>

text \<open>
  Claim C3 says that on both stores \<open>DeleteBlob\<close> of a live key removes the blob and
  lowers the reference count of every shard its chunks point at. On disk the
  function only deletes the key: the store after the deletion is the store before
  the blob was added, the chunk still points at shard 1, and
  \<open>UnreferencedSectors\<close> reports nothing. The same run in memory lowers the count
  of shard 1 from 1 to 0 and reports its sector.
\<close>

theorem Bolt_DeleteBlob_keeps_no_refcounts:
  "andThen (Bolt_AddShard shardA NewBoltMetaDB) (\<lambda>(s, db1).
   andThen (Bolt_AddChunk 1 1 10 db1) (\<lambda>(c, db2).
   andThen (Bolt_SetChunkShard (ID c) 0 s db2) (\<lambda>db3.
   andThen (Bolt_AddBlob blobK db3) (\<lambda>db4.
   andThen (Bolt_DeleteBlob ''k'' db4) (\<lambda>db5.
     Inr (s, ID c, Bolt_Blob ''k'' db4, Bolt_Blob ''k'' db5, Bolt_Chunk 1 db5,
          Bolt_UnreferencedSectors db5, db5 = db3))))))
   = Inr (1, 1, Inr blobK, Inl (Error ErrKeyNotFound),
          Inr \<lparr>ID = 1, Shards = [1], MinShards = 1, Len = 10\<rparr>, Inr [], True)
   \<and>
   andThen (AddShard shardA NewEphemeralMetaDB) (\<lambda>(s, db1).
   andThen (AddChunk 1 1 10 db1) (\<lambda>(c, db2).
   andThen (SetChunkShard (ID c) 0 s db2) (\<lambda>db3.
   andThen (AddBlob blobK db3) (\<lambda>db4.
   andThen (DeleteBlob ''k'' db4) (\<lambda>db5.
     Inr (s, ID c, refsGet (refs db4) 1, refsGet (refs db5) 1, UnreferencedSectors db5))))))
   = Inr (1, 1, 1, 0, Inr [(''host-a'', [''root-a''])])"
  by (simp add: eph_defs bolt_defs)

text \<open>On both stores deleting a key that has no blob succeeds and changes no count.\<close>

lemma DeleteBlob_missing_key:
  "map_of (blobs db) key = None \<Longrightarrow> DeleteBlob key db = Inr db"
  by (simp add: DeleteBlob_def)

lemma Bolt_DeleteBlob_missing_key:
  "map_of (bucketBlobs bdb) key = None \<Longrightarrow> Bolt_DeleteBlob key bdb = Inr bdb"
  by (simp add: Bolt_DeleteBlob_def map_of_eq_None_iff)

text \<open>
  In memory the deletion of a live blob whose chunk ids all exist removes the blob
  and lowers the count of every shard once for each slot of the blob's chunks that
  points at it.
\<close>

lemma refsGet_refsDec:
  "refsGet (refsDec k r) s = (if s = k then refsGet r k - 1 else refsGet r s)"
  by (simp add: refsGet_def refsDec_def update_conv')

lemma refsGet_fold_refsDec:
  "refsGet (fold refsDec xs r) s = refsGet r s - int (count_list xs s)"
  by (induction xs arbitrary: r) (auto simp: refsGet_refsDec)

lemma derefChunks_counts:
  assumes "\<forall>cid \<in> set cids. cid \<noteq> 0 \<and> unat cid \<le> length cs" and "length cs < 2 ^ 64"
  shows "\<exists>r'. derefChunks cs cids r = Inr r'
           \<and> (\<forall>s. refsGet r' s =
                 refsGet r s - int (count_list (concat (map (chunkShards cs) cids)) s))"
  using assms(1)
proof (induction cids arbitrary: r)
  case Nil
  then show ?case by simp
next
  case (Cons cid cids)
  from Cons.prems have ok: "cid \<noteq> 0" "unat cid \<le> length cs" by simp_all
  with assms(2) have i: "index cs (cid - 1) = Inr (cs ! (unat cid - 1))"
    by (simp add: index_pred)
  from Cons.prems have "\<forall>c \<in> set cids. c \<noteq> 0 \<and> unat c \<le> length cs" by simp
  from Cons.IH [OF this, of "fold refsDec (Shards (cs ! (unat cid - 1))) r"]
  obtain r' where r': "derefChunks cs cids (fold refsDec (Shards (cs ! (unat cid - 1))) r) = Inr r'"
    and c: "\<forall>s. refsGet r' s =
          refsGet (fold refsDec (Shards (cs ! (unat cid - 1))) r) s
            - int (count_list (concat (map (chunkShards cs) cids)) s)"
    by blast
  have "derefChunks cs (cid # cids) r = Inr r'"
    using r' by (simp add: i andThen_def)
  moreover have "\<forall>s. refsGet r' s =
      refsGet r s - int (count_list (concat (map (chunkShards cs) (cid # cids))) s)"
    using c by (simp add: refsGet_fold_refsDec chunkShards_def i)
  ultimately show ?case by blast
qed

lemma DeleteBlob_live_key:
  assumes live: "map_of (blobs db) key = Some b"
      and ids: "\<forall>cid \<in> set (Chunks b). cid \<noteq> 0 \<and> unat cid \<le> length (chunks db)"
      and len: "length (chunks db) < 2 ^ 64"
  shows "\<exists>db'. DeleteBlob key db = Inr db'
           \<and> Blob key db' = Inl (Error ErrKeyNotFound)
           \<and> (\<forall>s. refsGet (refs db') s =
                 refsGet (refs db) s
                   - int (count_list (concat (map (chunkShards (chunks db)) (Chunks b))) s))"
proof -
  from derefChunks_counts [OF ids len, of "refs db"]
  obtain r' where r': "derefChunks (chunks db) (Chunks b) (refs db) = Inr r'"
    and c: "\<forall>s. refsGet r' s =
          refsGet (refs db) s
            - int (count_list (concat (map (chunkShards (chunks db)) (Chunks b))) s)"
    by blast
  show ?thesis
    using c by (simp add: DeleteBlob_def live r' andThen_def Blob_def delete_conv')
qed

subsection \<open>Adding a blob twice\<close>

text \<open>
  Claim C4 says that \<open>AddBlob\<close> fails with a duplicate-key error when the key has a
  live blob, and leaves that blob unchanged. Neither store has such an error: the
  second \<open>AddBlob\<close> under the key \<open>k\<close> succeeds and \<open>Blob\<close> then returns the
  second record.
\<close>

theorem AddBlob_overwrites_duplicate_key:
  "andThen (andThen (AddBlob blobK NewEphemeralMetaDB) (AddBlob blobK2)) (Blob ''k'') = Inr blobK2
   \<and> andThen (andThen (Bolt_AddBlob blobK NewBoltMetaDB) (Bolt_AddBlob blobK2)) (Bolt_Blob ''k'')
       = Inr blobK2
   \<and> blobK2 \<noteq> blobK"
  by (simp add: eph_defs bolt_defs)

text \<open>
  Claim C4 as amended. When the key of the record has a live blob, \<open>AddBlob\<close>
  succeeds on both stores and replaces the blob by the new record; the blobs under
  all other keys stay as they were. (A live key on disk is one bolt has accepted:
  not empty and at most 32768 bytes long.)
\<close>

theorem AddBlob_replaces_existing:
  assumes "map_of (blobs db) (Key b) = Some old"
      and "map_of (bucketBlobs bdb) (Key b) = Some oldv"
      and "Key b \<noteq> []" and "length (Key b) \<le> 32768"
  shows "(case AddBlob b db of
            Inl e \<Rightarrow> False
          | Inr db' \<Rightarrow>
              Blob (Key b) db' = Inr b \<and> (\<forall>k. k \<noteq> Key b \<longrightarrow> Blob k db' = Blob k db))
       \<and> (case Bolt_AddBlob b bdb of
            Inl e \<Rightarrow> False
          | Inr db' \<Rightarrow>
              Bolt_Blob (Key b) db' = Inr b
              \<and> (\<forall>k. k \<noteq> Key b \<longrightarrow> Bolt_Blob k db' = Bolt_Blob k bdb))"
  using assms
  by (auto simp: AddBlob_def Blob_def Bolt_AddBlob_def Bolt_Blob_def bolt_Put_def andThen_def
      update_conv')

theorem AddBlob_replaces_existing_witness:
  "map_of (blobs (NewEphemeralMetaDB\<lparr>blobs := [(''k'', blobK)]\<rparr>)) (Key blobK2) = Some blobK
   \<and> map_of (bucketBlobs (NewBoltMetaDB\<lparr>bucketBlobs := [(''k'', ([1], ''seed''))]\<rparr>)) (Key blobK2)
       = Some ([1], ''seed'')
   \<and> Key blobK2 \<noteq> [] \<and> length (Key blobK2) \<le> 32768
   \<and> andThen (AddBlob blobK2 (NewEphemeralMetaDB\<lparr>blobs := [(''k'', blobK)]\<rparr>)) (Blob ''k'')
       = Inr blobK2
   \<and> andThen (Bolt_AddBlob blobK2 (NewBoltMetaDB\<lparr>bucketBlobs := [(''k'', ([1], ''seed''))]\<rparr>))
        (Bolt_Blob ''k'')
       = Inr blobK2"
proof -
  let ?db = "NewEphemeralMetaDB\<lparr>blobs := [(''k'', blobK)]\<rparr>"
  let ?bdb = "NewBoltMetaDB\<lparr>bucketBlobs := [(''k'', ([1], ''seed''))]\<rparr>"
  have h1: "map_of (blobs ?db) (Key blobK2) = Some blobK" by (simp add: blobK2_def)
  have h2: "map_of (bucketBlobs ?bdb) (Key blobK2) = Some ([1], ''seed'')"
    by (simp add: blobK2_def)
  have h3: "Key blobK2 \<noteq> []" by (simp add: blobK2_def)
  have h4: "length (Key blobK2) \<le> 32768" by (simp add: blobK2_def)
  have k: "Key blobK2 = ''k''" by (simp add: blobK2_def)
  from AddBlob_replaces_existing [OF h1 h2 h3 h4]
  have "andThen (AddBlob blobK2 ?db) (Blob ''k'') = Inr blobK2
     \<and> andThen (Bolt_AddBlob blobK2 ?bdb) (Bolt_Blob ''k'') = Inr blobK2"
    unfolding k by (auto simp: andThen_def split: sum.splits)
  with h1 h2 h3 h4 show ?thesis by blast
qed

subsection \<open>Unreferenced sectors\<close>

text \<open>
  Claim C5 says that \<open>UnreferencedSectors\<close> lists the sector of an added shard
  exactly when no live blob points at it. A shard that was added and never put into
  a slot has no entry in \<open>refs\<close>, and the loop over the entries never sees it: after
  one \<open>AddShard\<close> shard 1 is stored, nothing points at it, and the result is empty.
  On disk the function returns nil whatever the store holds.
\<close>

theorem UnreferencedSectors_misses_unused_shard:
  "andThen (AddShard shardA NewEphemeralMetaDB) (\<lambda>(s, db).
   andThen (UnreferencedSectors db) (\<lambda>m.
     Inr (s, Shard s db, liveReferences db s, refsGet (refs db) s, m)))
   = Inr (1, Inr shardA, 0, 0, [])
   \<and> andThen (Bolt_AddShard shardA NewBoltMetaDB) (\<lambda>(s, db).
      andThen (Bolt_UnreferencedSectors db) (\<lambda>m. Inr (s, Bolt_Shard s db, m)))
   = Inr (1, Inr shardA, [])"
  by (simp add: eph_defs bolt_defs Shard_def)

subsection \<open>Adding a chunk\<close>





section \<open>The download on concrete and on all exchanges\<close>

lemmas dl_defs = partialSector_def syncAndRead_def deferred_def UnmarshalSia_def oneByte_def
  DecUint64_def exchangeA_def downloaderA_def hostA_def txnA_def revA_def RenterFunds_def
  newDownloadRevision_def signedA_def exchangeDown_def closedConn_def refused_def isDisconnect_def
  PartialSector_def errorOf_def exchanges_def handshakes_def Let_def

text \<open>
  Every run of \<open>partialSector\<close> sets the negotiation deadline once and never opens a
  connection; it leaves the connection and the contract of the Downloader as they were.
\<close>

lemma partialSector_events:
  "exchanges (fst (partialSector SectorSize x root offset length' d)) = 1
   \<and> handshakes (fst (partialSector SectorSize x root offset length' d)) = 0"
  by (auto simp: partialSector_def syncAndRead_def deferred_def exchanges_def handshakes_def Let_def
      split: sum.splits option.splits list.splits failure.splits)

lemma partialSector_keeps_connection:
  "conn (fst (snd (partialSector SectorSize x root offset length' d))) = conn d
   \<and> contract (fst (snd (partialSector SectorSize x root offset length' d))) = contract d"
  by (auto simp: partialSector_def syncAndRead_def deferred_def Let_def
      split: sum.splits option.splits list.splits failure.splits)

subsection \<open>The price of a download\<close>

text \<open>
  Whatever the length asked for, the revision sent to the host pays the price of a
  whole sector, and the funds are checked against that price.
\<close>

lemma partialSector_proposes_sector_price:
  assumes "NegotiateRevision c proposed k \<in> set (fst (partialSector SectorSize x root offset length' d))"
  shows "\<exists>h. startRevisionReply x = Inr h
          \<and> proposed = newDownloadRevision (CurrentRevision (contractTransaction x))
                    (DownloadBandwidthPrice h * SectorSize)
          \<and> HostPayout proposed = HostPayout (CurrentRevision (contractTransaction x))
                    + DownloadBandwidthPrice h * SectorSize"
  using assms
  by (auto simp: partialSector_def syncAndRead_def deferred_def Let_def newDownloadRevision_def
        split: sum.splits option.splits list.splits failure.splits if_splits)

text \<open>
  Claim C1 says that a successful call for \<open>L\<close> bytes pays the host exactly \<open>L\<close>
  times the price per byte more than the prior revision, and that the funds check
  asks for that amount. At a price of 1 per byte, a call for one byte sends a
  revision that pays the host 4194304 instead of 1; and with 100 left in the contract,
  enough for 100 bytes, the call for one byte fails for insufficient funds.
\<close>

theorem partialSector_charges_whole_sector:
  "partialSector 4194304 exchangeA ''root'' 0 1 downloaderA =
     ([ExtendDeadline 1 NegotiateDownloadTime, StartRevision 1,
       WriteObject 1 [\<lparr>MerkleRoot = ''root'', ActionOffset = 0, ActionLength = 1\<rparr>],
       NegotiateRevision 1 \<lparr>RenterPayout = 805696, HostPayout = 4194304, OtherTerms = ''terms''\<rparr>
         ''renter-key'',
       SyncWithHost \<lparr>RenterPayout = 805696, HostPayout = 4194304, OtherTerms = ''terms''\<rparr>
         [''renter-sig'', ''host-sig''],
       ReadSector 1, ExtendDeadline 1 Hour],
      downloaderA, Inr ''z'')
   \<and> HostPayout revA = 0 \<and> DownloadBandwidthPrice hostA * 1 = 1
   \<and> RenterFunds (contractTransaction exchangePoor) = 100
   \<and> partialSector 4194304 exchangePoor ''root'' 0 1 downloaderA =
     ([ExtendDeadline 1 NegotiateDownloadTime, StartRevision 1, ExtendDeadline 1 Hour],
      downloaderA,
      Inl (Error (errors_New ''contract has insufficient funds to support download'')))"
  by (simp add: dl_defs exchangePoor_def)

subsection \<open>The range check\<close>

text \<open>
  As long as \<open>offset + length\<close> does not reach \<open>2^32\<close> the check is the one of the
  natural numbers: a range beyond the sector is refused before anything is sent, and
  a range inside it goes on to the host.
\<close>

lemma range_check_no_wrap:
  assumes "unat offset + unat length' < 2 ^ 32" and "SectorSize < 2 ^ 32"
  shows "((of_nat SectorSize :: 32 word) < offset + length') = (SectorSize < unat offset + unat length')"
proof -
  from assms(1) have "unat (offset + length') = unat offset + unat length'"
    by (simp add: unat_add_lem [THEN iffD1])
  moreover from assms(2) have "unat (of_nat SectorSize :: 32 word) = SectorSize"
    by (simp add: unat_of_nat)
  ultimately show ?thesis by (simp add: word_less_nat_alt)
qed

lemma partialSector_rejects_range:
  assumes "unat offset + unat length' < 2 ^ 32" and "SectorSize < unat offset + unat length'"
  shows "partialSector SectorSize x root offset length' d =
     ([ExtendDeadline (conn d) NegotiateDownloadTime, ExtendDeadline (conn d) Hour], d,
      Inl (Error (errors_New ''invalid sector range'')))"
proof -
  from assms have "SectorSize < 2 ^ 32" by simp
  from range_check_no_wrap [OF assms(1) this] assms(2)
  have "(of_nat SectorSize :: 32 word) < offset + length'" by simp
  then show ?thesis by (simp add: partialSector_def deferred_def Let_def)
qed

lemma partialSector_accepts_range:
  assumes "unat offset + unat length' \<le> SectorSize" and "SectorSize < 2 ^ 32"
  shows "StartRevision (conn d) \<in> set (fst (partialSector SectorSize x root offset length' d))"
proof -
  from assms have "unat offset + unat length' < 2 ^ 32" by simp
  from range_check_no_wrap [OF this assms(2)] assms(1)
  have "\<not> (of_nat SectorSize :: 32 word) < offset + length'" by simp
  then show ?thesis
    by (auto simp: partialSector_def syncAndRead_def deferred_def Let_def
        split: sum.splits option.splits list.splits failure.splits)
qed

text \<open>
  Claim C7 says that every call whose \<open>offset + length\<close> exceeds the sector size
  fails as an invalid range and asks the host for nothing. The sum is taken in 32
  bits: \<open>4294967295 + 1\<close> wraps to 0, the check passes, the request for that range
  goes to the host and the contract is revised.
\<close>

theorem partialSector_range_check_wraps:
  "4194304 < unat (4294967295 :: 32 word) + unat (1 :: 32 word)
   \<and> partialSector 4194304 exchangeA ''root'' 4294967295 1 downloaderA =
     ([ExtendDeadline 1 NegotiateDownloadTime, StartRevision 1,
       WriteObject 1 [\<lparr>MerkleRoot = ''root'', ActionOffset = 4294967295, ActionLength = 1\<rparr>],
       NegotiateRevision 1 \<lparr>RenterPayout = 805696, HostPayout = 4194304, OtherTerms = ''terms''\<rparr>
         ''renter-key'',
       SyncWithHost \<lparr>RenterPayout = 805696, HostPayout = 4194304, OtherTerms = ''terms''\<rparr>
         [''renter-sig'', ''host-sig''],
       ReadSector 1, ExtendDeadline 1 Hour],
      downloaderA, Inr ''z'')"
  by (simp add: dl_defs)

subsection \<open>The stop response\<close>

lemma UnmarshalSia_no_panic: "24 \<le> SectorSize \<Longrightarrow> UnmarshalSia SectorSize r \<noteq> Inl (Panic p)"
  by (simp add: UnmarshalSia_def Let_def)

lemma UnmarshalSia_no_stop: "UnmarshalSia SectorSize r \<noteq> Inl (Error ErrStopResponse)"
  by (simp add: UnmarshalSia_def Let_def)

text \<open>
  Claim C6. When the host answers the proposed revision with the stop response,
  \<open>partialSector\<close> goes on as if the negotiation had returned no error: the run is
  the run with a nil error in its place. Given that the steps before the negotiation
  pass and that the negotiation hands back the signed transaction with its revision
  (the source reads \<open>FileContractRevisions[0]\<close> of it), the event after the
  negotiation is \<open>SyncWithHost\<close> with that revision and not the closing of the
  connection, the sector is read exactly when the contract editor accepts the
  revision, and the call neither panics nor returns the stop response as its error.
\<close>

theorem partialSector_stop_response_is_benign:
  assumes stop: "negotiateRevisionReply x = (signedTxn, Some ErrStopResponse)"
      and range: "\<not> of_nat SectorSize < offset + length'"
      and start: "startRevisionReply x = Inr h"
      and funds: "\<not> RenterFunds (contractTransaction x) < DownloadBandwidthPrice h * SectorSize"
      and sent: "writeObjectReply x = None"
      and revs: "FileContractRevisions signedTxn = rev0 # revs"
      and size: "24 \<le> SectorSize"
  shows "partialSector SectorSize x root offset length' d =
           partialSector SectorSize (x\<lparr>negotiateRevisionReply := (signedTxn, None)\<rparr>) root offset length' d
       \<and> take 5 (fst (partialSector SectorSize x root offset length' d)) =
           [ExtendDeadline (conn d) NegotiateDownloadTime,
            StartRevision (conn d),
            WriteObject (conn d)
              [\<lparr>MerkleRoot = root, ActionOffset = ucast offset, ActionLength = ucast length'\<rparr>],
            NegotiateRevision (conn d)
              (newDownloadRevision (CurrentRevision (contractTransaction x))
                 (DownloadBandwidthPrice h * SectorSize))
              (RenterKey (contractTransaction x)),
            SyncWithHost rev0 (TransactionSignatures signedTxn)]
       \<and> (ReadSector (conn d) \<in> set (fst (partialSector SectorSize x root offset length' d)))
           = (syncWithHostReply x = None)
       \<and> (\<forall>p. snd (snd (partialSector SectorSize x root offset length' d)) \<noteq> Inl (Panic p))
       \<and> snd (snd (partialSector SectorSize x root offset length' d)) \<noteq> Inl (Error ErrStopResponse)"
proof -
  let ?c = "conn d"
  let ?evs2 = "[StartRevision ?c,
      WriteObject ?c [\<lparr>MerkleRoot = root, ActionOffset = ucast offset, ActionLength = ucast length'\<rparr>],
      NegotiateRevision ?c
        (newDownloadRevision (CurrentRevision (contractTransaction x))
           (DownloadBandwidthPrice h * SectorSize))
        (RenterKey (contractTransaction x))]"
  have run: "partialSector SectorSize x root offset length' d =
               syncAndRead SectorSize x length' (d\<lparr>host := h\<rparr>) ?evs2 signedTxn"
    using assms by (simp add: partialSector_def Let_def)
  have x': "syncAndRead SectorSize (x\<lparr>negotiateRevisionReply := (signedTxn, None)\<rparr>) length' (d\<lparr>host := h\<rparr>) ?evs2 signedTxn
          = syncAndRead SectorSize x length' (d\<lparr>host := h\<rparr>) ?evs2 signedTxn"
    by (simp add: syncAndRead_def Let_def
        cong: list.case_cong option.case_cong sum.case_cong failure.case_cong)
  have run': "partialSector SectorSize (x\<lparr>negotiateRevisionReply := (signedTxn, None)\<rparr>) root offset length' d =
               syncAndRead SectorSize x length' (d\<lparr>host := h\<rparr>) ?evs2 signedTxn"
    using assms by (simp add: partialSector_def Let_def x')
  have 1: "take 5 (fst (syncAndRead SectorSize x length' (d\<lparr>host := h\<rparr>) ?evs2 signedTxn)) =
      ExtendDeadline ?c NegotiateDownloadTime # ?evs2 @ [SyncWithHost rev0 (TransactionSignatures signedTxn)]"
    using revs
    by (simp add: syncAndRead_def deferred_def Let_def
        split: option.splits sum.splits failure.splits)
  have 2: "(ReadSector ?c \<in> set (fst (syncAndRead SectorSize x length' (d\<lparr>host := h\<rparr>) ?evs2 signedTxn)))
      = (syncWithHostReply x = None)"
    using revs
    by (simp add: syncAndRead_def deferred_def Let_def
        split: option.splits sum.splits failure.splits)
  have 3: "snd (snd (syncAndRead SectorSize x length' (d\<lparr>host := h\<rparr>) ?evs2 signedTxn)) \<noteq> Inl (Panic p)" for p
    using revs UnmarshalSia_no_panic [OF size, of "wire x"]
    by (simp add: syncAndRead_def deferred_def Let_def
        split: option.splits sum.splits failure.splits)
  have 4: "snd (snd (syncAndRead SectorSize x length' (d\<lparr>host := h\<rparr>) ?evs2 signedTxn)) \<noteq> Inl (Error ErrStopResponse)"
    using revs UnmarshalSia_no_stop [of SectorSize "wire x"]
    by (auto simp: syncAndRead_def deferred_def Let_def
        split: option.splits sum.splits failure.splits)
  show ?thesis unfolding run run' using 1 2 3 4 by simp
qed

theorem partialSector_stop_response_is_benign_witness:
  "negotiateRevisionReply exchangeStop = (signedA, Some ErrStopResponse)
   \<and> \<not> of_nat 4194304 < (0::32 word) + 1
   \<and> startRevisionReply exchangeStop = Inr hostA
   \<and> \<not> RenterFunds (contractTransaction exchangeStop) < DownloadBandwidthPrice hostA * 4194304
   \<and> writeObjectReply exchangeStop = None
   \<and> FileContractRevisions signedA = [newDownloadRevision revA 4194304]
   \<and> (24::nat) \<le> 4194304
   \<and> partialSector 4194304 exchangeStop ''root'' 0 1 downloaderA =
       partialSector 4194304 exchangeA ''root'' 0 1 downloaderA
   \<and> snd (snd (partialSector 4194304 exchangeStop ''root'' 0 1 downloaderA)) = Inr ''z''"
proof -
  have h1: "negotiateRevisionReply exchangeStop = (signedA, Some ErrStopResponse)"
    by (simp add: exchangeStop_def)
  have h2: "\<not> of_nat 4194304 < (0::32 word) + 1" by simp
  have h3: "startRevisionReply exchangeStop = Inr hostA" by (simp add: exchangeStop_def exchangeA_def)
  have h4: "\<not> RenterFunds (contractTransaction exchangeStop) < DownloadBandwidthPrice hostA * 4194304"
    by (simp add: exchangeStop_def exchangeA_def RenterFunds_def txnA_def revA_def hostA_def)
  have h5: "writeObjectReply exchangeStop = None" by (simp add: exchangeStop_def exchangeA_def)
  have h6: "FileContractRevisions signedA = [newDownloadRevision revA 4194304]"
    by (simp add: signedA_def)
  have h7: "(24::nat) \<le> 4194304" by simp
  have e: "exchangeStop\<lparr>negotiateRevisionReply := (signedA, None)\<rparr> = exchangeA"
    by (simp add: exchangeStop_def exchangeA_def)
  have v: "snd (snd (partialSector 4194304 exchangeA ''root'' 0 1 downloaderA)) = Inr ''z''"
    by (simp add: dl_defs)
  from partialSector_stop_response_is_benign [OF h1 h2 h3 h4 h5 h6 h7, of "''root''" downloaderA]
  have "partialSector 4194304 exchangeStop ''root'' 0 1 downloaderA =
       partialSector 4194304 exchangeA ''root'' 0 1 downloaderA"
    unfolding e by blast
  with h1 h2 h3 h4 h5 h6 h7 v show ?thesis by simp
qed

subsection \<open>Reconnecting\<close>

text \<open>
  Claim C8 says that after a disconnect \<open>PartialSector\<close> reconnects and runs the
  whole exchange again exactly once. When the new handshake fails there is no second
  run: the first exchange ends with the error of a closed connection, the handshake
  is refused, and \<open>PartialSector\<close> returns that refusal after one exchange.
\<close>

theorem PartialSector_no_retry_after_failed_handshake:
  "partialSector 4194304 exchangeDown ''root'' 0 1 downloaderA =
     ([ExtendDeadline 1 NegotiateDownloadTime, StartRevision 1, ExtendDeadline 1 Hour],
      downloaderA, Inl (Error closedConn))
   \<and> isDisconnect (Some closedConn)
   \<and> PartialSector 4194304 isDisconnect exchangeDown (0, Some refused) exchangeA ''root'' 0 1 downloaderA =
     ([ExtendDeadline 1 NegotiateDownloadTime, StartRevision 1, ExtendDeadline 1 Hour,
       ConnClose 1, InitiateRPC ''host-a:9982'' ''contract-a''],
      downloaderA\<lparr>conn := 0\<rparr>, Inl (Error refused))
   \<and> exchanges (fst (PartialSector 4194304 isDisconnect exchangeDown (0, Some refused) exchangeA
        ''root'' 0 1 downloaderA)) = 1"
  by (simp add: dl_defs)

text \<open>
  Claim C8 as amended. When the first exchange fails with an error that
  \<open>isHostDisconnect\<close> accepts, \<open>PartialSector\<close> closes the connection and starts one
  handshake with the same host and contract; if the handshake succeeds it runs the
  whole exchange once more on the new connection and returns what that run returns,
  whatever it is, so there are exactly two exchanges; if the handshake fails it
  returns the handshake's error after one exchange. When the first error is not a
  disconnect it is returned as it is, after one exchange and without a handshake.
\<close>

theorem PartialSector_retries_at_most_once:
  assumes first: "partialSector SectorSize x1 root offset length' d = (evs1, d1, Inl (Error e))"
  shows "PartialSector SectorSize isHostDisconnect x1 rpc x2 root offset length' d =
     (if isHostDisconnect (Some e) then
        (case snd rpc of
           Some e' \<Rightarrow>
             (evs1 @ [ConnClose (conn d), InitiateRPC (NetAddress (host d1)) (contract d)],
              d1\<lparr>conn := fst rpc\<rparr>, Inl (Error e'))
         | None \<Rightarrow>
             (case partialSector SectorSize x2 root offset length' (d1\<lparr>conn := fst rpc\<rparr>) of
                (evs2, d3, r2) \<Rightarrow>
                  (evs1 @ [ConnClose (conn d), InitiateRPC (NetAddress (host d1)) (contract d)] @ evs2,
                   d3, r2)))
      else (evs1, d1, Inl (Error e)))
   \<and> exchanges (fst (PartialSector SectorSize isHostDisconnect x1 rpc x2 root offset length' d)) =
       (if isHostDisconnect (Some e) \<and> snd rpc = None then 2 else 1)
   \<and> handshakes (fst (PartialSector SectorSize isHostDisconnect x1 rpc x2 root offset length' d)) =
       (if isHostDisconnect (Some e) then 1 else 0)"
proof -
  from partialSector_keeps_connection [of SectorSize x1 root offset length' d] first
  have c: "conn d1 = conn d" "contract d1 = contract d" by simp_all
  from partialSector_events [of SectorSize x1 root offset length' d] first
  have n1: "exchanges evs1 = 1" "handshakes evs1 = 0" by simp_all
  obtain evs2 d3 r2 where second:
    "partialSector SectorSize x2 root offset length' (d1\<lparr>conn := fst rpc\<rparr>) = (evs2, d3, r2)"
    by (cases "partialSector SectorSize x2 root offset length' (d1\<lparr>conn := fst rpc\<rparr>)") auto
  from partialSector_events [of SectorSize x2 root offset length' "d1\<lparr>conn := fst rpc\<rparr>"] second
  have n2: "exchanges evs2 = 1" "handshakes evs2 = 0" by simp_all
  have P: "PartialSector SectorSize isHostDisconnect x1 rpc x2 root offset length' d =
     (if isHostDisconnect (Some e) then
        (case snd rpc of
           Some e' \<Rightarrow>
             (evs1 @ [ConnClose (conn d), InitiateRPC (NetAddress (host d1)) (contract d)],
              d1\<lparr>conn := fst rpc\<rparr>, Inl (Error e'))
         | None \<Rightarrow>
             (evs1 @ [ConnClose (conn d), InitiateRPC (NetAddress (host d1)) (contract d)] @ evs2,
                   d3, r2))
      else (evs1, d1, Inl (Error e)))"
    by (simp add: PartialSector_def first second errorOf_def c Let_def split: option.splits)
  have E: "exchanges (evs1 @ [ConnClose (conn d), InitiateRPC (NetAddress (host d1)) (contract d)]) = 1"
      "handshakes (evs1 @ [ConnClose (conn d), InitiateRPC (NetAddress (host d1)) (contract d)]) = 1"
    using n1 by (simp_all add: exchanges_def handshakes_def)
  have E2: "exchanges (evs1 @ [ConnClose (conn d), InitiateRPC (NetAddress (host d1)) (contract d)] @ evs2) = 2"
      "handshakes (evs1 @ [ConnClose (conn d), InitiateRPC (NetAddress (host d1)) (contract d)] @ evs2) = 1"
    using n1 n2 by (simp_all add: exchanges_def handshakes_def)
  show ?thesis
    unfolding P using E E2 n1 by (simp add: second split: option.splits)
qed

theorem PartialSector_retries_at_most_once_witness:
  "partialSector 4194304 exchangeDown ''root'' 0 1 downloaderA =
     ([ExtendDeadline 1 NegotiateDownloadTime, StartRevision 1, ExtendDeadline 1 Hour],
      downloaderA, Inl (Error closedConn))
   \<and> PartialSector 4194304 isDisconnect exchangeDown (2, None) exchangeDown ''root'' 0 1 downloaderA =
     ([ExtendDeadline 1 NegotiateDownloadTime, StartRevision 1, ExtendDeadline 1 Hour,
       ConnClose 1, InitiateRPC ''host-a:9982'' ''contract-a'',
       ExtendDeadline 2 NegotiateDownloadTime, StartRevision 2, ExtendDeadline 2 Hour],
      downloaderA\<lparr>conn := 2\<rparr>, Inl (Error closedConn))
   \<and> exchanges (fst (PartialSector 4194304 isDisconnect exchangeDown (2, None) exchangeDown
        ''root'' 0 1 downloaderA)) = 2"
proof -
  have h: "partialSector 4194304 exchangeDown ''root'' 0 1 downloaderA =
     ([ExtendDeadline 1 NegotiateDownloadTime, StartRevision 1, ExtendDeadline 1 Hour],
      downloaderA, Inl (Error closedConn))"
    by (simp add: dl_defs)
  have d: "isDisconnect (Some closedConn)" by (simp add: isDisconnect_def)
  have s: "partialSector 4194304 exchangeDown ''root'' 0 1 (downloaderA\<lparr>conn := 2\<rparr>) =
     ([ExtendDeadline 2 NegotiateDownloadTime, StartRevision 2, ExtendDeadline 2 Hour],
      downloaderA\<lparr>conn := 2\<rparr>, Inl (Error closedConn))"
    by (simp add: dl_defs)
  have cd: "conn downloaderA = 1" "NetAddress (host downloaderA) = ''host-a:9982''"
    "contract downloaderA = ''contract-a''"
    by (simp_all add: downloaderA_def hostA_def)
  from PartialSector_retries_at_most_once [OF h, of isDisconnect "(2, None)" exchangeDown]
  have "PartialSector 4194304 isDisconnect exchangeDown (2, None) exchangeDown ''root'' 0 1 downloaderA =
     ([ExtendDeadline 1 NegotiateDownloadTime, StartRevision 1, ExtendDeadline 1 Hour,
       ConnClose 1, InitiateRPC ''host-a:9982'' ''contract-a'',
       ExtendDeadline 2 NegotiateDownloadTime, StartRevision 2, ExtendDeadline 2 Hour],
      downloaderA\<lparr>conn := 2\<rparr>, Inl (Error closedConn))
   \<and> exchanges (fst (PartialSector 4194304 isDisconnect exchangeDown (2, None) exchangeDown
        ''root'' 0 1 downloaderA)) = 2
   \<and> handshakes (fst (PartialSector 4194304 isDisconnect exchangeDown (2, None) exchangeDown
        ''root'' 0 1 downloaderA)) = 1"
    by (simp add: d s cd exchanges_def handshakes_def)
  with h show ?thesis by blast
qed

text \<open>No call runs more than two exchanges, however the first one ends.\<close>

lemma PartialSector_at_most_two_exchanges:
  "exchanges (fst (PartialSector SectorSize isHostDisconnect x1 rpc x2 root offset length' d)) \<le> 2"
proof -
  obtain evs1 d1 r1 where first:
    "partialSector SectorSize x1 root offset length' d = (evs1, d1, r1)"
    by (cases "partialSector SectorSize x1 root offset length' d") auto
  obtain evs2 d3 r2 where second:
    "partialSector SectorSize x2 root offset length' (d1\<lparr>conn := fst rpc\<rparr>) = (evs2, d3, r2)"
    by (cases "partialSector SectorSize x2 root offset length' (d1\<lparr>conn := fst rpc\<rparr>)") auto
  from partialSector_events [of SectorSize x1 root offset length' d] first
  have n1: "exchanges evs1 = 1" by simp
  from partialSector_events [of SectorSize x2 root offset length' "d1\<lparr>conn := fst rpc\<rparr>"] second
  have n2: "exchanges evs2 = 1" by simp
  show ?thesis
    using n1 n2
    by (auto simp: PartialSector_def first second exchanges_def Let_def
        split: sum.splits failure.splits option.splits)
qed


end
